theory Spec2Isabelle
  imports Complex_Main
begin

section \<open>JavaScript values\<close>

text \<open>
  The values a request field can hold. \<open>typeof v === 'string'\<close> is the constructor
  \<open>JStr\<close>. A \<open>string\<close> is a list of characters; the functions below only look at the
  ASCII digits of a string, so the width of a character does not matter to them.
\<close>

datatype jsvalue = JStr string | JNum rat | JBool bool | JNull | JUndefined

section \<open>utils/validation.js: sanitizers.sanitizePhone\<close>

text \<open>
  \<^verbatim>\<open>phone.replace(/\D/g, '')\<close> deletes every character that is not one of \<open>0\<close>..\<open>9\<close>
  (the regular expression has no unicode flag, so \<open>\D\<close> is the complement of the ten
  ASCII digits).
\<close>

definition isDigit :: "char \<Rightarrow> bool" where
  "isDigit c = (c \<in> set ''0123456789'')"

definition digitsOf :: "string \<Rightarrow> string" where
  "digitsOf phone = filter isDigit phone"

fun sanitizePhone :: "jsvalue \<Rightarrow> string option" where
  "sanitizePhone (JStr phone) =
     (let digitsOnly = digitsOf phone in
      if length digitsOnly = 10 then Some (''+91'' @ digitsOnly)
      else if length digitsOnly \<ge> 10 \<and> length digitsOnly \<le> 15 then Some (''+'' @ digitsOnly)
      else None)"
| "sanitizePhone _ = None"

section \<open>Route handlers: the pagination block of a list response\<close>




section \<open>The documents and the store\<close>

text \<open>
  A \<open>Number\<close> of the schemas is a rational here: products and counts are exact, and the
  rounding of doubles is not modelled. An \<open>ObjectId\<close> is a natural number. A schema
  field that a document may lack (\<open>undefined\<close>) is an \<open>option\<close>. Only the fields the
  handlers below read or write are fields of the records; the others (\<open>facing\<close>,
  \<open>features\<close>, \<open>sellers\<close>, ...) are taken as present and valid.
\<close>

type_synonym objectId = nat
type_synonym number = rat

record plotDoc =
  plot_id :: objectId
  plotNumber :: string
  colony :: objectId
  area :: "number option"
  pricePerSqFt :: "number option"
  totalPrice :: "number option"
  status :: string
  createdBy :: objectId

record colonyDoc =
  colony_id :: objectId
  name :: "string option"
  address :: "string option"
  totalPlots :: number
  availablePlots :: number
  soldPlots :: number
  blockedPlots :: number
  colonyCreatedBy :: objectId

record store =
  plotColl :: "plotDoc list"
  colonyColl :: "colonyDoc list"

datatype mongooseError = ValidationError "string list"

text \<open>The queries of the handlers: \<open>find\<close>, \<open>findOne\<close>, \<open>findById\<close> by a filter.\<close>

definition Plot_find :: "(plotDoc \<Rightarrow> bool) \<Rightarrow> store \<Rightarrow> plotDoc list" where
  "Plot_find q s = filter q (plotColl s)"

definition Plot_findOne :: "(plotDoc \<Rightarrow> bool) \<Rightarrow> store \<Rightarrow> plotDoc option" where
  "Plot_findOne q s = find q (plotColl s)"

definition Plot_findById :: "objectId \<Rightarrow> store \<Rightarrow> plotDoc option" where
  "Plot_findById i s = find (\<lambda>p. plot_id p = i) (plotColl s)"

definition Colony_findById :: "objectId \<Rightarrow> store \<Rightarrow> colonyDoc option" where
  "Colony_findById i s = find (\<lambda>c. colony_id c = i) (colonyColl s)"

section \<open>models/Colony.js: updatePlotCounts\<close>

text \<open>
  \<open>this.save()\<close> of a loaded Colony document writes the document back under its
  \<open>_id\<close>. The Colony schema registers no middleware. The stored Colony documents
  pass the Colony schema's validators (create and update check them), so the save is
  not rejected; failures of the database itself are not modelled.
\<close>

definition colony_save :: "colonyDoc \<Rightarrow> store \<Rightarrow> store" where
  "colony_save this s =
     s\<lparr>colonyColl := map (\<lambda>c. if colony_id c = colony_id this then this else c) (colonyColl s)\<rparr>"

definition updatePlotCounts :: "colonyDoc \<Rightarrow> store \<Rightarrow> colonyDoc \<times> store" where
  "updatePlotCounts this s =
     (let plots = Plot_find (\<lambda>p. colony p = colony_id this) s;
          this' = this\<lparr>
            totalPlots := of_nat (length plots),
            availablePlots := of_nat (length (filter (\<lambda>plot. status plot = ''available'') plots)),
            soldPlots := of_nat (length (filter (\<lambda>plot. status plot = ''sold'') plots)),
            blockedPlots := of_nat (length (filter (\<lambda>plot. status plot = ''blocked'') plots))\<rparr>
      in (this', colony_save this' s))"

section \<open>The Plot model: schema, middleware, document operations\<close>

text \<open>
  JavaScript truthiness of a schema Number that may be missing: \<open>undefined\<close> and \<open>0\<close>
  are falsy.
\<close>

definition truthy :: "number option \<Rightarrow> bool" where
  "truthy x = (case x of None \<Rightarrow> False | Some v \<Rightarrow> v \<noteq> 0)"

definition times_opt :: "number option \<Rightarrow> number option \<Rightarrow> number option" where
  "times_opt x y = (case (x, y) of (Some a, Some b) \<Rightarrow> Some (a * b) | _ \<Rightarrow> None)"

text \<open>\<open>plotSchema.pre('save')\<close>: calculate total price before saving.\<close>

definition pre_save :: "plotDoc \<Rightarrow> plotDoc" where
  "pre_save this =
     (if truthy (area this) \<and> truthy (pricePerSqFt this)
      then this\<lparr>totalPrice := times_opt (area this) (pricePerSqFt this)\<rparr>
      else this)"

text \<open>\<open>plotSchema.post('save')\<close>: update colony plot counts after save.\<close>

definition post_save :: "plotDoc \<Rightarrow> store \<Rightarrow> store" where
  "post_save this s =
     (case Colony_findById (colony this) s of
        Some c \<Rightarrow> snd (updatePlotCounts c s)
      | None \<Rightarrow> s)"

text \<open>\<open>plotSchema.post('remove')\<close>: update colony plot counts after remove.\<close>

definition post_remove :: "plotDoc \<Rightarrow> store \<Rightarrow> store" where
  "post_remove this s =
     (case Colony_findById (colony this) s of
        Some c \<Rightarrow> snd (updatePlotCounts c s)
      | None \<Rightarrow> s)"

text \<open>
  Mongoose middleware is registered under the name of an operation and runs for that
  operation only. The Plot schema registers \<open>pre('save')\<close>, \<open>post('save')\<close> and
  \<open>post('remove')\<close>; it registers nothing under \<open>deleteOne\<close> or \<open>findOneAndUpdate\<close>.
  \<open>Model.create\<close> saves a new document (\<open>save\<close>); \<open>doc.remove()\<close> is \<open>remove\<close>;
  \<open>doc.deleteOne()\<close> is \<open>deleteOne\<close>; \<open>Model.findByIdAndUpdate\<close> is the query
  \<open>findOneAndUpdate\<close>.
\<close>

datatype hookName = Save | Remove | DeleteOne | FindOneAndUpdate

fun plotSchema_pre :: "hookName \<Rightarrow> plotDoc \<Rightarrow> plotDoc" where
  "plotSchema_pre Save this = pre_save this"
| "plotSchema_pre _ this = this"

fun plotSchema_post :: "hookName \<Rightarrow> plotDoc \<Rightarrow> store \<Rightarrow> store" where
  "plotSchema_post Save this s = post_save this s"
| "plotSchema_post Remove this s = post_remove this s"
| "plotSchema_post _ this s = s"

text \<open>
  The validators of the Plot schema: the \<open>required\<close> paths and the \<open>enum\<close> of
  \<open>status\<close>. The result is the list of the messages of the failed validators.
\<close>

definition plotStatusEnum :: "string list" where
  "plotStatusEnum = [''available'', ''blocked'', ''sold'', ''reserved'']"

definition validatePlot :: "plotDoc \<Rightarrow> string list" where
  "validatePlot d =
     (if plotNumber d = [] then [''Plot number is required''] else []) @
     (if area d = None then [''Plot area is required''] else []) @
     (if pricePerSqFt d = None then [''Price per sq ft is required''] else []) @
     (if totalPrice d = None then [''Total price is required''] else []) @
     (if status d \<in> set plotStatusEnum then [] else [''status is not a valid enum value''])"

text \<open>
  The body of \<open>POST /plots\<close> after the route's validators: \<open>plotNumber\<close> (trimmed) and
  \<open>colony\<close> are present; the other fields are what the caller sent.
\<close>

record plotBody =
  b_plotNumber :: string
  b_colony :: objectId
  b_area :: "number option"
  b_pricePerSqFt :: "number option"
  b_totalPrice :: "number option"
  b_status :: "string option"

text \<open>\<open>new Plot({...req.body, createdBy})\<close>: the schema default of \<open>status\<close> applies.\<close>

definition newPlot :: "objectId \<Rightarrow> objectId \<Rightarrow> plotBody \<Rightarrow> plotDoc" where
  "newPlot newId user body =
     \<lparr>plot_id = newId, plotNumber = b_plotNumber body, colony = b_colony body,
      area = b_area body, pricePerSqFt = b_pricePerSqFt body, totalPrice = b_totalPrice body,
      status = (case b_status body of None \<Rightarrow> ''available'' | Some v \<Rightarrow> v),
      createdBy = user\<rparr>"

text \<open>
  \<open>Plot.create\<close>: saving a new document. Mongoose validates the document first (its own
  validation is the first \<open>pre('save')\<close> step), then runs the schema's \<open>pre('save')\<close>
  middleware, inserts the document, and runs the \<open>post('save')\<close> middleware.
\<close>

definition Plot_create :: "objectId \<Rightarrow> objectId \<Rightarrow> plotBody \<Rightarrow> store \<Rightarrow> mongooseError + (plotDoc \<times> store)" where
  "Plot_create newId user body s =
     (let doc = newPlot newId user body in
      case validatePlot doc of
        e # es \<Rightarrow> Inl (ValidationError (e # es))
      | [] \<Rightarrow>
          (let this = plotSchema_pre Save doc;
               s' = s\<lparr>plotColl := plotColl s @ [this]\<rparr>
           in Inr (this, plotSchema_post Save this s')))"

text \<open>
  The body of \<open>PUT /plots/:id\<close>: every field is optional, and the handler passes the
  whole body to \<open>findByIdAndUpdate\<close>, so a body can also carry \<open>colony\<close> and
  \<open>totalPrice\<close>.
\<close>

record plotUpdate =
  u_plotNumber :: "string option"
  u_colony :: "objectId option"
  u_area :: "number option"
  u_pricePerSqFt :: "number option"
  u_totalPrice :: "number option"
  u_status :: "string option"

definition applyUpdate :: "plotUpdate \<Rightarrow> plotDoc \<Rightarrow> plotDoc" where
  "applyUpdate u d =
     d\<lparr>plotNumber := (case u_plotNumber u of None \<Rightarrow> plotNumber d | Some v \<Rightarrow> v),
       colony := (case u_colony u of None \<Rightarrow> colony d | Some v \<Rightarrow> v),
       area := (case u_area u of None \<Rightarrow> area d | Some v \<Rightarrow> Some v),
       pricePerSqFt := (case u_pricePerSqFt u of None \<Rightarrow> pricePerSqFt d | Some v \<Rightarrow> Some v),
       totalPrice := (case u_totalPrice u of None \<Rightarrow> totalPrice d | Some v \<Rightarrow> Some v),
       status := (case u_status u of None \<Rightarrow> status d | Some v \<Rightarrow> v)\<rparr>"

text \<open>
  \<open>Plot.findByIdAndUpdate(id, body, {new: true, runValidators: true})\<close>: the update
  validators check the paths of the update (here the \<open>enum\<close> of \<open>status\<close> and a
  nonempty \<open>plotNumber\<close>); the fields of the body are set on the stored document; the
  result is the updated document, or \<open>None\<close> when no document has the id.
\<close>

definition validateUpdate :: "plotUpdate \<Rightarrow> string list" where
  "validateUpdate u =
     (if u_plotNumber u = Some [] then [''Plot number is required''] else []) @
     (case u_status u of
        None \<Rightarrow> []
      | Some v \<Rightarrow> if v \<in> set plotStatusEnum then [] else [''status is not a valid enum value''])"

definition Plot_findByIdAndUpdate ::
  "objectId \<Rightarrow> plotUpdate \<Rightarrow> store \<Rightarrow> mongooseError + (plotDoc option \<times> store)" where
  "Plot_findByIdAndUpdate i u s =
     (case validateUpdate u of
        e # es \<Rightarrow> Inl (ValidationError (e # es))
      | [] \<Rightarrow>
          (case Plot_findById i s of
             None \<Rightarrow> Inr (None, s)
           | Some d \<Rightarrow>
               (let d' = plotSchema_pre FindOneAndUpdate (applyUpdate u d);
                    s' = s\<lparr>plotColl := map (\<lambda>p. if plot_id p = i then d' else p) (plotColl s)\<rparr>
                in Inr (Some d', plotSchema_post FindOneAndUpdate d' s'))))"

text \<open>\<open>doc.deleteOne()\<close> and \<open>doc.remove()\<close>: delete the document with this \<open>_id\<close>.\<close>

definition plot_deleteOne :: "plotDoc \<Rightarrow> store \<Rightarrow> store" where
  "plot_deleteOne this s =
     (let this' = plotSchema_pre DeleteOne this;
          s' = s\<lparr>plotColl := filter (\<lambda>p. plot_id p \<noteq> plot_id this') (plotColl s)\<rparr>
      in plotSchema_post DeleteOne this' s')"

definition plot_remove :: "plotDoc \<Rightarrow> store \<Rightarrow> store" where
  "plot_remove this s =
     (let this' = plotSchema_pre Remove this;
          s' = s\<lparr>plotColl := filter (\<lambda>p. plot_id p \<noteq> plot_id this') (plotColl s)\<rparr>
      in plotSchema_post Remove this' s')"

section \<open>The Colony model: create and update\<close>

text \<open>
  The bodies of \<open>POST /colonies\<close> and \<open>PUT /colonies/:id\<close>. Both handlers pass the
  whole body to the model, so a body can carry the four counters.
\<close>

record colonyBody =
  c_name :: "string option"
  c_address :: "string option"
  c_totalPlots :: "number option"
  c_availablePlots :: "number option"
  c_soldPlots :: "number option"
  c_blockedPlots :: "number option"

definition orDefault :: "'a option \<Rightarrow> 'a \<Rightarrow> 'a" where
  "orDefault x d = (case x of None \<Rightarrow> d | Some v \<Rightarrow> v)"

definition newColony :: "objectId \<Rightarrow> objectId \<Rightarrow> colonyBody \<Rightarrow> colonyDoc" where
  "newColony newId user body =
     \<lparr>colony_id = newId, name = c_name body, address = c_address body,
      totalPlots = orDefault (c_totalPlots body) 0,
      availablePlots = orDefault (c_availablePlots body) 0,
      soldPlots = orDefault (c_soldPlots body) 0,
      blockedPlots = orDefault (c_blockedPlots body) 0,
      colonyCreatedBy = user\<rparr>"

definition required :: "string option \<Rightarrow> bool" where
  "required x = (case x of None \<Rightarrow> False | Some v \<Rightarrow> v \<noteq> [])"

definition validateColony :: "colonyDoc \<Rightarrow> string list" where
  "validateColony d =
     (if required (name d) then [] else [''Colony name is required'']) @
     (if required (address d) then [] else [''Address is required''])"

definition Colony_create ::
  "objectId \<Rightarrow> objectId \<Rightarrow> colonyBody \<Rightarrow> store \<Rightarrow> mongooseError + (colonyDoc \<times> store)" where
  "Colony_create newId user body s =
     (let doc = newColony newId user body in
      case validateColony doc of
        e # es \<Rightarrow> Inl (ValidationError (e # es))
      | [] \<Rightarrow> Inr (doc, s\<lparr>colonyColl := colonyColl s @ [doc]\<rparr>))"

definition applyColonyUpdate :: "colonyBody \<Rightarrow> colonyDoc \<Rightarrow> colonyDoc" where
  "applyColonyUpdate u d =
     d\<lparr>name := (case c_name u of None \<Rightarrow> name d | Some v \<Rightarrow> Some v),
       address := (case c_address u of None \<Rightarrow> address d | Some v \<Rightarrow> Some v),
       totalPlots := orDefault (c_totalPlots u) (totalPlots d),
       availablePlots := orDefault (c_availablePlots u) (availablePlots d),
       soldPlots := orDefault (c_soldPlots u) (soldPlots d),
       blockedPlots := orDefault (c_blockedPlots u) (blockedPlots d)\<rparr>"

definition validateColonyUpdate :: "colonyBody \<Rightarrow> string list" where
  "validateColonyUpdate u =
     (if c_name u = Some [] then [''Colony name is required''] else []) @
     (if c_address u = Some [] then [''Address is required''] else [])"

definition Colony_findByIdAndUpdate ::
  "objectId \<Rightarrow> colonyBody \<Rightarrow> store \<Rightarrow> mongooseError + (colonyDoc option \<times> store)" where
  "Colony_findByIdAndUpdate i u s =
     (case validateColonyUpdate u of
        e # es \<Rightarrow> Inl (ValidationError (e # es))
      | [] \<Rightarrow>
          (case Colony_findById i s of
             None \<Rightarrow> Inr (None, s)
           | Some d \<Rightarrow>
               (let d' = applyColonyUpdate u d
                in Inr (Some d',
                     s\<lparr>colonyColl := map (\<lambda>c. if colony_id c = i then d' else c) (colonyColl s)\<rparr>))))"

section \<open>Responses and the validation result handler\<close>

text \<open>
  An entry of \<open>validationResult(req).array()\<close>, as express-validator builds it, and an
  entry of the \<open>errors\<close> of a failure response. \<open>d_value\<close> is the key \<open>value\<close> of the
  response entry: the rejected value.
\<close>

record verror =
  path :: string
  msg :: string
  v_value :: jsvalue
  v_location :: string

record errorDetail =
  field :: string
  message :: string
  d_value :: jsvalue
  location :: string

datatype payload =
  NoData
| PlotData plotDoc
| ColonyData colonyDoc
| ErrorDetails "errorDetail list"
| RawErrors "verror list"

record response =
  code :: nat
  success :: bool
  res_message :: string
  res_timestamp :: "string option"
  res_body :: payload

text \<open>\<open>res.status(code).json({success: false, message})\<close>.\<close>

definition failure :: "nat \<Rightarrow> string \<Rightarrow> response" where
  "failure statusCode m =
     \<lparr>code = statusCode, success = False, res_message = m, res_timestamp = None,
      res_body = NoData\<rparr>"

text \<open>
  Modelled from the spec: \<open>sendSuccess\<close> of middleware/responseHandler.js, which is not
  among the sources. The specification gives the envelope of a successful operation as
  \<open>{success: true, message?, data}\<close>.
\<close>

definition sendSuccess :: "nat \<Rightarrow> string \<Rightarrow> payload \<Rightarrow> response" where
  "sendSuccess statusCode m d =
     \<lparr>code = statusCode, success = True, res_message = m, res_timestamp = None,
      res_body = d\<rparr>"

text \<open>
  utils/validation.js: \<open>handleValidationErrors\<close>. \<open>errors\<close> is the result of the
  validation chains that ran before it, \<open>now\<close> the time stamp, \<open>nxt\<close> the rest of the
  route (\<open>next()\<close>), which runs only when there is no error.
\<close>

definition handleValidationErrors ::
  "verror list \<Rightarrow> string \<Rightarrow> (store \<Rightarrow> response \<times> store) \<Rightarrow> store \<Rightarrow> response \<times> store" where
  "handleValidationErrors errors now nxt s =
     (if errors \<noteq> [] then
        (let errorDetails =
               map (\<lambda>error. \<lparr>field = path error, message = msg error,
                              d_value = v_value error, location = v_location error\<rparr>) errors
         in (\<lparr>code = 400, success = False, res_message = ''Validation failed'',
              res_timestamp = Some now, res_body = ErrorDetails errorDetails\<rparr>, s))
      else nxt s)"

section \<open>Route handlers of plots and colonies\<close>

text \<open>
  Each handler takes the store and returns the response and the store after it. A
  rejected promise inside the \<open>try\<close> block ends in the \<open>catch\<close>: status 500.
  \<open>newId\<close> is the \<open>_id\<close> a new document gets, \<open>user\<close> is \<open>req.user._id\<close>.
\<close>

definition POST_plots :: "objectId \<Rightarrow> objectId \<Rightarrow> plotBody \<Rightarrow> store \<Rightarrow> response \<times> store" where
  "POST_plots newId user body s =
     (case Colony_findById (b_colony body) s of
        None \<Rightarrow> (failure 400 ''Colony not found'', s)
      | Some c \<Rightarrow>
          (case Plot_findOne (\<lambda>p. plotNumber p = b_plotNumber body \<and> colony p = b_colony body) s of
             Some existingPlot \<Rightarrow> (failure 400 ''Plot number already exists in this colony'', s)
           | None \<Rightarrow>
               (case Plot_create newId user body s of
                  Inl err \<Rightarrow> (failure 500 ''Server error'', s)
                | Inr (plot, s') \<Rightarrow>
                    (sendSuccess 201 ''Plot created successfully'' (PlotData plot), s'))))"

definition PUT_plots :: "objectId \<Rightarrow> plotUpdate \<Rightarrow> store \<Rightarrow> response \<times> store" where
  "PUT_plots i body s =
     (case Plot_findByIdAndUpdate i body s of
        Inl err \<Rightarrow> (failure 500 ''Server error'', s)
      | Inr (None, s') \<Rightarrow> (failure 404 ''Plot not found'', s')
      | Inr (Some plot, s') \<Rightarrow> (sendSuccess 200 ''Plot updated successfully'' (PlotData plot), s'))"

definition DELETE_plots :: "objectId \<Rightarrow> store \<Rightarrow> response \<times> store" where
  "DELETE_plots i s =
     (case Plot_findById i s of
        None \<Rightarrow> (failure 404 ''Plot not found'', s)
      | Some plot \<Rightarrow>
          if status plot = ''sold'' then (failure 400 ''Cannot delete sold plot'', s)
          else (sendSuccess 200 ''Plot deleted successfully'' NoData, plot_deleteOne plot s))"

text \<open>
  \<open>POST /colonies\<close> checks \<open>validationResult(req)\<close> itself and answers with the raw
  entries; \<open>PUT /colonies/:id\<close> runs no request validation.
\<close>

definition POST_colonies ::
  "verror list \<Rightarrow> objectId \<Rightarrow> objectId \<Rightarrow> colonyBody \<Rightarrow> store \<Rightarrow> response \<times> store" where
  "POST_colonies errors newId user body s =
     (if errors \<noteq> [] then
        (\<lparr>code = 400, success = False, res_message = ''Validation errors'',
          res_timestamp = None, res_body = RawErrors errors\<rparr>, s)
      else
        (case Colony_create newId user body s of
           Inl err \<Rightarrow> (failure 500 ''Server error'', s)
         | Inr (c, s') \<Rightarrow>
             (\<lparr>code = 201, success = True, res_message = ''Colony created successfully'',
               res_timestamp = None, res_body = ColonyData c\<rparr>, s')))"

definition PUT_colonies :: "objectId \<Rightarrow> colonyBody \<Rightarrow> store \<Rightarrow> response \<times> store" where
  "PUT_colonies i body s =
     (case Colony_findByIdAndUpdate i body s of
        Inl err \<Rightarrow> (failure 500 ''Server error'', s)
      | Inr (None, s') \<Rightarrow> (failure 404 ''Colony not found'', s')
      | Inr (Some c, s') \<Rightarrow>
          (\<lparr>code = 200, success = True, res_message = ''Colony updated successfully'',
            res_timestamp = None, res_body = ColonyData c\<rparr>, s'))"

text \<open>
  The routes that end in a handler above, from \<open>handleValidationErrors\<close> on. The
  middleware before it (\<open>authorize\<close>, \<open>sanitizeRequest\<close>, the validation chains) reads
  and rewrites the request only.
\<close>

definition route_POST_plots ::
  "verror list \<Rightarrow> string \<Rightarrow> objectId \<Rightarrow> objectId \<Rightarrow> plotBody \<Rightarrow> store \<Rightarrow> response \<times> store" where
  "route_POST_plots errors now newId user body =
     handleValidationErrors errors now (POST_plots newId user body)"

definition route_PUT_plots ::
  "verror list \<Rightarrow> string \<Rightarrow> objectId \<Rightarrow> plotUpdate \<Rightarrow> store \<Rightarrow> response \<times> store" where
  "route_PUT_plots errors now i body = handleValidationErrors errors now (PUT_plots i body)"

definition route_DELETE_plots ::
  "verror list \<Rightarrow> string \<Rightarrow> objectId \<Rightarrow> store \<Rightarrow> response \<times> store" where
  "route_DELETE_plots errors now i = handleValidationErrors errors now (DELETE_plots i)"

section \<open>The enum invariant and example data\<close>

text \<open>
  Every stored plot has a \<open>status\<close> of the schema's enum: \<open>Plot.create\<close> and
  \<open>findByIdAndUpdate\<close> with \<open>runValidators\<close> check it, so the three plot handlers
  keep it.
\<close>

definition statusValid :: "store \<Rightarrow> bool" where
  "statusValid s = list_all (\<lambda>p. status p \<in> set plotStatusEnum) (plotColl s)"

definition exPlot :: "objectId \<Rightarrow> string \<Rightarrow> objectId \<Rightarrow> string \<Rightarrow> plotDoc" where
  "exPlot i n c st =
     \<lparr>plot_id = i, plotNumber = n, colony = c, area = Some 100, pricePerSqFt = Some 200,
      totalPrice = Some 20000, status = st, createdBy = 9\<rparr>"

definition exColony :: "objectId \<Rightarrow> colonyDoc" where
  "exColony i =
     \<lparr>colony_id = i, name = Some ''Green Park'', address = Some ''Nashik Road'',
      totalPlots = 0, availablePlots = 0, soldPlots = 0, blockedPlots = 0,
      colonyCreatedBy = 9\<rparr>"

definition exStore :: store where
  "exStore =
     \<lparr>plotColl = [exPlot 10 ''A-1'' 1 ''available'', exPlot 11 ''A-2'' 1 ''sold'',
                  exPlot 12 ''A-1'' 2 ''available'', exPlot 13 ''A-3'' 1 ''reserved''],
      colonyColl = [exColony 1, exColony 2]\<rparr>"

definition exBody :: "string \<Rightarrow> objectId \<Rightarrow> plotBody" where
  "exBody n c =
     \<lparr>b_plotNumber = n, b_colony = c, b_area = Some 100, b_pricePerSqFt = Some 200,
      b_totalPrice = Some 1, b_status = None\<rparr>"

definition exEmpty :: store where
  "exEmpty = \<lparr>plotColl = [], colonyColl = [exColony 1]\<rparr>"

definition exColonyBody :: "number option \<Rightarrow> colonyBody" where
  "exColonyBody t =
     \<lparr>c_name = Some ''Green Park'', c_address = Some ''Nashik Road'', c_totalPlots = t,
      c_availablePlots = None, c_soldPlots = None, c_blockedPlots = None\<rparr>"

section \<open>Phone numbers\<close>

lemma isDigit_plus [simp]: "\<not> isDigit CHR ''+''"
  by (simp add: isDigit_def)

lemma isDigit_9 [simp]: "isDigit CHR ''9''"
  by (simp add: isDigit_def)

lemma isDigit_1 [simp]: "isDigit CHR ''1''"
  by (simp add: isDigit_def)

lemma digitsOf_idem [simp]: "digitsOf (digitsOf s) = digitsOf s"
  by (simp add: digitsOf_def)

lemma digitsOf_append [simp]: "digitsOf (xs @ ys) = digitsOf xs @ digitsOf ys"
  by (simp add: digitsOf_def)

lemma digitsOf_Cons [simp]:
  "digitsOf (c # s) = (if isDigit c then c # digitsOf s else digitsOf s)"
  by (simp add: digitsOf_def)

text \<open>
  C8. Phone sanitization keeps the digits of a string. Exactly 10 digits: the result is
  \<open>+91\<close> followed by the digits. Otherwise, 10 to 15 digits (so 11 to 15): \<open>+\<close> followed
  by the digits. Otherwise the input is rejected. The three inputs of the specification
  give the three results it names.
\<close>

theorem sanitizePhone_cases:
  "(length (digitsOf s) = 10 \<longrightarrow>
      sanitizePhone (JStr s) = Some (''+91'' @ digitsOf s)) \<and>
   (length (digitsOf s) \<noteq> 10 \<and> 10 \<le> length (digitsOf s) \<and> length (digitsOf s) \<le> 15 \<longrightarrow>
      sanitizePhone (JStr s) = Some (''+'' @ digitsOf s)) \<and>
   (length (digitsOf s) < 10 \<or> 15 < length (digitsOf s) \<longrightarrow>
      sanitizePhone (JStr s) = None) \<and>
   sanitizePhone (JStr ''9876543210'') = Some ''+919876543210'' \<and>
   sanitizePhone (JStr ''12345'') = None \<and>
   sanitizePhone (JStr ''+14155552671'') = Some ''+14155552671''"
  by (simp add: digitsOf_def isDigit_def)

theorem sanitizePhone_cases_witness:
  "length (digitsOf ''98765 43210'') = 10 \<and>
   sanitizePhone (JStr ''98765 43210'') = Some ''+919876543210'' \<and>
   length (digitsOf ''0044 20 7946 0958'') = 14 \<and>
   sanitizePhone (JStr ''0044 20 7946 0958'') = Some ''+00442079460958'' \<and>
   length (digitsOf ''555-0100'') = 7 \<and>
   sanitizePhone (JStr ''555-0100'') = None"
  using sanitizePhone_cases [of "''98765 43210''"]
    sanitizePhone_cases [of "''0044 20 7946 0958''"]
    sanitizePhone_cases [of "''555-0100''"]
  by (simp add: digitsOf_def isDigit_def)

text \<open>
  C10. Phone sanitization is idempotent where it accepts: sanitizing an accepted result
  again returns the same result.
\<close>

theorem sanitizePhone_idempotent:
  "sanitizePhone (JStr s) = Some r \<Longrightarrow> sanitizePhone (JStr r) = Some r"
proof -
  assume a: "sanitizePhone (JStr s) = Some r"
  let ?d = "digitsOf s"
  show ?thesis
  proof (cases "length ?d = 10")
    case True
    with a have r: "r = ''+91'' @ ?d" by simp
    have "digitsOf r = ''91'' @ ?d" unfolding r by simp
    with True show ?thesis by (simp add: r)
  next
    case False
    with a have len: "10 \<le> length ?d \<and> length ?d \<le> 15" and r: "r = ''+'' @ ?d"
      by (auto simp: Let_def split: if_splits)
    have "digitsOf r = ?d" unfolding r by simp
    with False len show ?thesis by (simp add: r)
  qed
qed

theorem sanitizePhone_idempotent_witness:
  "sanitizePhone (JStr ''9876543210'') = Some ''+919876543210'' \<and>
   sanitizePhone (JStr ''+919876543210'') = Some ''+919876543210''"
proof -
  have h: "sanitizePhone (JStr ''9876543210'') = Some ''+919876543210''"
    by (simp add: digitsOf_def isDigit_def)
  from sanitizePhone_idempotent [OF h] h show ?thesis by simp
qed

section \<open>Pagination\<close>







section \<open>Colony counters\<close>

lemmas ex_defs = exPlot_def exColony_def exStore_def exBody_def exEmpty_def exColonyBody_def

lemmas run_defs = POST_plots_def PUT_plots_def DELETE_plots_def Plot_create_def
  Plot_findByIdAndUpdate_def plot_deleteOne_def Plot_findOne_def Plot_findById_def
  Colony_findById_def newPlot_def validatePlot_def validateUpdate_def applyUpdate_def
  plotStatusEnum_def pre_save_def post_save_def truthy_def times_opt_def
  updatePlotCounts_def Plot_find_def colony_save_def sendSuccess_def failure_def Let_def

lemma find_replace:
  "find (\<lambda>c. colony_id c = colony_id d) xs = Some c0 \<Longrightarrow>
   find (\<lambda>c. colony_id c = colony_id d)
     (map (\<lambda>c. if colony_id c = colony_id d then d else c) xs) = Some d"
  by (induction xs) (auto split: if_splits)

lemma Colony_findById_colony_save:
  "Colony_findById (colony_id d) s = Some c0 \<Longrightarrow>
   Colony_findById (colony_id d) (colony_save d s) = Some d"
  by (simp add: Colony_findById_def colony_save_def find_replace)

lemma updatePlotCounts_fields:
  "colony_id (fst (updatePlotCounts c s)) = colony_id c"
  "name (fst (updatePlotCounts c s)) = name c"
  "address (fst (updatePlotCounts c s)) = address c"
  "plotColl (snd (updatePlotCounts c s)) = plotColl s"
  by (simp_all add: updatePlotCounts_def Let_def colony_save_def)

lemma updatePlotCounts_forgets:
  "updatePlotCounts (c\<lparr>totalPlots := t, availablePlots := a, soldPlots := so,
                       blockedPlots := b\<rparr>) s = updatePlotCounts c s"
  by (simp add: updatePlotCounts_def Let_def)

text \<open>
  C1. The counter recompute loads the plots whose \<open>colony\<close> is the Colony's identifier,
  sets \<open>totalPlots\<close> to their number and \<open>availablePlots\<close>, \<open>soldPlots\<close>, \<open>blockedPlots\<close>
  to the number of those with status \<open>available\<close>, \<open>sold\<close>, \<open>blocked\<close>, and writes the
  Colony back: loading a stored Colony afterwards gives the updated document. The other
  fields of the Colony and the plots are unchanged, and the result does not depend on the
  counters the Colony had before.
\<close>

theorem updatePlotCounts_recount:
  assumes "Colony_findById (colony_id c) s = Some c0"
  shows "let plots = filter (\<lambda>p. colony p = colony_id c) (plotColl s);
             (c', s') = updatePlotCounts c s
         in set plots = {p \<in> set (plotColl s). colony p = colony_id c} \<and>
            totalPlots c' = of_nat (length plots) \<and>
            availablePlots c' = of_nat (length (filter (\<lambda>p. status p = ''available'') plots)) \<and>
            soldPlots c' = of_nat (length (filter (\<lambda>p. status p = ''sold'') plots)) \<and>
            blockedPlots c' = of_nat (length (filter (\<lambda>p. status p = ''blocked'') plots)) \<and>
            colony_id c' = colony_id c \<and> name c' = name c \<and> address c' = address c \<and>
            Colony_findById (colony_id c) s' = Some c' \<and>
            plotColl s' = plotColl s \<and>
            updatePlotCounts (c\<lparr>totalPlots := t, availablePlots := a, soldPlots := so,
                                 blockedPlots := b\<rparr>) s = (c', s')"
proof -
  obtain c' s' where r: "updatePlotCounts c s = (c', s')" by (cases "updatePlotCounts c s")
  have id: "colony_id c' = colony_id c" using r updatePlotCounts_fields(1) [of c s] by simp
  have s': "s' = colony_save c' s" using r by (auto simp: updatePlotCounts_def Let_def)
  have stored: "Colony_findById (colony_id c) s' = Some c'"
    using Colony_findById_colony_save [of c' s c0] assms id s' by simp
  have indep: "updatePlotCounts (c\<lparr>totalPlots := t, availablePlots := a, soldPlots := so,
                                 blockedPlots := b\<rparr>) s = (c', s')"
    using r by (simp add: updatePlotCounts_forgets)
  show ?thesis
    using r stored indep
    by (auto simp: updatePlotCounts_def Let_def Plot_find_def colony_save_def)
qed

theorem updatePlotCounts_recount_witness:
  "Colony_findById (colony_id (exColony 1)) exStore = Some (exColony 1) \<and>
   updatePlotCounts (exColony 1) exStore =
     (exColony 1\<lparr>totalPlots := 3, availablePlots := 1, soldPlots := 1, blockedPlots := 0\<rparr>,
      exStore\<lparr>colonyColl :=
        [exColony 1\<lparr>totalPlots := 3, availablePlots := 1, soldPlots := 1, blockedPlots := 0\<rparr>,
         exColony 2]\<rparr>) \<and>
   updatePlotCounts (exColony 1\<lparr>totalPlots := 7, availablePlots := 7, soldPlots := 7,
                                  blockedPlots := 7\<rparr>) exStore =
     updatePlotCounts (exColony 1) exStore"
proof -
  have h: "Colony_findById (colony_id (exColony 1)) exStore = Some (exColony 1)"
    by (simp add: Colony_findById_def ex_defs)
  from updatePlotCounts_recount [OF h, of 7 7 7 7] h show ?thesis
    by (simp add: updatePlotCounts_def Plot_find_def colony_save_def Let_def ex_defs)
qed

lemma status_partition:
  "length (filter (\<lambda>p. status p = ''available'') l) +
   length (filter (\<lambda>p. status p = ''sold'') l) +
   length (filter (\<lambda>p. status p = ''blocked'') l) +
   length (filter (\<lambda>p. status p \<noteq> ''available'' \<and> status p \<noteq> ''sold'' \<and>
                        status p \<noteq> ''blocked'') l) = length l"
  by (induction l) auto

lemma enum_other:
  "x \<in> set plotStatusEnum \<Longrightarrow>
   (x \<noteq> ''available'' \<and> x \<noteq> ''sold'' \<and> x \<noteq> ''blocked'') = (x = ''reserved'')"
  by (auto simp: plotStatusEnum_def)

lemma recount_valid_store:
  assumes "statusValid s"
  shows "let live = filter (\<lambda>p. colony p = colony_id c) (plotColl s);
             c' = fst (updatePlotCounts c s)
         in totalPlots c' = of_nat (length live) \<and>
            availablePlots c' + soldPlots c' + blockedPlots c' \<le> totalPlots c' \<and>
            (availablePlots c' + soldPlots c' + blockedPlots c' \<noteq> totalPlots c' \<longleftrightarrow>
               (\<exists>p \<in> set live. status p = ''reserved''))"
proof -
  let ?live = "filter (\<lambda>p. colony p = colony_id c) (plotColl s)"
  let ?a = "length (filter (\<lambda>p. status p = ''available'') ?live)"
  let ?s = "length (filter (\<lambda>p. status p = ''sold'') ?live)"
  let ?b = "length (filter (\<lambda>p. status p = ''blocked'') ?live)"
  let ?o = "filter (\<lambda>p. status p \<noteq> ''available'' \<and> status p \<noteq> ''sold'' \<and>
                        status p \<noteq> ''blocked'') ?live"
  have part: "?a + ?s + ?b + length ?o = length ?live" by (rule status_partition)
  have valid: "\<And>p. p \<in> set ?live \<Longrightarrow> status p \<in> set plotStatusEnum"
    using assms by (auto simp: statusValid_def list_all_iff)
  have "(?o \<noteq> []) = (\<exists>p \<in> set ?live. status p = ''reserved'')"
    using valid enum_other by (auto simp: filter_empty_conv)
  moreover have "(?a + ?s + ?b \<noteq> length ?live) = (?o \<noteq> [])" using part by auto
  moreover have "?a + ?s + ?b \<le> length ?live" using part by linarith
  moreover have "(rat_of_nat ?a + rat_of_nat ?s + rat_of_nat ?b \<le> rat_of_nat (length ?live))
      = (?a + ?s + ?b \<le> length ?live)"
    by (simp only: of_nat_add [symmetric] of_nat_le_iff)
  moreover have "(rat_of_nat ?a + rat_of_nat ?s + rat_of_nat ?b = rat_of_nat (length ?live))
      = (?a + ?s + ?b = length ?live)"
    by (simp only: of_nat_add [symmetric] of_nat_eq_iff)
  ultimately show ?thesis
    by (simp add: updatePlotCounts_def Let_def Plot_find_def)
qed

lemma plotColl_post_save [simp]: "plotColl (post_save d s) = plotColl s"
  by (simp add: post_save_def updatePlotCounts_fields split: option.splits)

lemma plotColl_post_remove [simp]: "plotColl (post_remove d s) = plotColl s"
  by (simp add: post_remove_def updatePlotCounts_fields split: option.splits)

lemma status_pre_save [simp]: "status (pre_save d) = status d"
  by (simp add: pre_save_def)

lemma validatePlot_status: "validatePlot d = [] \<Longrightarrow> status d \<in> set plotStatusEnum"
  by (auto simp: validatePlot_def split: if_splits)

lemma statusValid_Plot_create:
  "statusValid s \<Longrightarrow> Plot_create newId user body s = Inr (d, s') \<Longrightarrow> statusValid s'"
  by (auto simp: Plot_create_def Let_def statusValid_def validatePlot_status
           split: list.splits)

lemma statusValid_POST_plots:
  "statusValid s \<Longrightarrow> statusValid (snd (POST_plots newId user body s))"
  by (auto simp: POST_plots_def statusValid_Plot_create split: option.splits sum.splits)

lemma statusValid_plot_deleteOne: "statusValid s \<Longrightarrow> statusValid (plot_deleteOne d s)"
  by (simp add: plot_deleteOne_def statusValid_def list_all_iff)

lemma statusValid_DELETE_plots: "statusValid s \<Longrightarrow> statusValid (snd (DELETE_plots i s))"
  by (simp add: DELETE_plots_def statusValid_plot_deleteOne split: option.splits)

lemma validateUpdate_status:
  "validateUpdate u = [] \<Longrightarrow> u_status u = Some v \<Longrightarrow> v \<in> set plotStatusEnum"
  by (auto simp: validateUpdate_def split: if_splits)

lemma status_applyUpdate:
  "validateUpdate u = [] \<Longrightarrow> status d \<in> set plotStatusEnum \<Longrightarrow>
   status (applyUpdate u d) \<in> set plotStatusEnum"
  by (cases "u_status u") (auto simp: applyUpdate_def dest: validateUpdate_status)

lemma Plot_findById_mem: "Plot_findById i s = Some d \<Longrightarrow> d \<in> set (plotColl s)"
  by (auto simp: Plot_findById_def find_Some_iff)

lemma statusValid_PUT_plots: "statusValid s \<Longrightarrow> statusValid (snd (PUT_plots i u s))"
proof -
  assume v: "statusValid s"
  show ?thesis
  proof (cases "validateUpdate u")
    case Nil
    show ?thesis
    proof (cases "Plot_findById i s")
      case None
      with Nil v show ?thesis by (simp add: PUT_plots_def Plot_findByIdAndUpdate_def)
    next
      case (Some d)
      then have "status d \<in> set plotStatusEnum"
        using v Plot_findById_mem by (auto simp: statusValid_def list_all_iff)
      then have "status (applyUpdate u d) \<in> set plotStatusEnum"
        using Nil by (simp add: status_applyUpdate)
      with Nil Some v show ?thesis
        by (auto simp: PUT_plots_def Plot_findByIdAndUpdate_def Let_def statusValid_def
              list_all_iff)
    qed
  next
    case (Cons e es)
    with v show ?thesis by (simp add: PUT_plots_def Plot_findByIdAndUpdate_def)
  qed
qed

text \<open>
  C2. After a Plot create or delete (the handlers of \<open>POST /plots\<close> and
  \<open>DELETE /plots/:id\<close>) on a store whose plots have a status of the enum, a counter
  recompute of any Colony gives \<open>totalPlots\<close> equal to the number of plots that reference
  the Colony, \<open>availablePlots + soldPlots + blockedPlots \<le> totalPlots\<close>, and the two sides
  differ exactly when a plot of the Colony has status \<open>reserved\<close>.
\<close>

theorem recount_after_create_or_delete:
  assumes "statusValid s"
    and "s' = snd (POST_plots newId user body s) \<or> s' = snd (DELETE_plots i s)"
  shows "let live = filter (\<lambda>p. colony p = colony_id c) (plotColl s');
             c' = fst (updatePlotCounts c s')
         in totalPlots c' = of_nat (length live) \<and>
            availablePlots c' + soldPlots c' + blockedPlots c' \<le> totalPlots c' \<and>
            (availablePlots c' + soldPlots c' + blockedPlots c' \<noteq> totalPlots c' \<longleftrightarrow>
               (\<exists>p \<in> set live. status p = ''reserved''))"
proof -
  have "statusValid s'"
    using assms statusValid_POST_plots statusValid_DELETE_plots by blast
  then show ?thesis by (rule recount_valid_store)
qed

theorem recount_after_create_or_delete_witness:
  "statusValid exStore \<and>
   snd (DELETE_plots 10 exStore) =
     exStore\<lparr>plotColl := [exPlot 11 ''A-2'' 1 ''sold'', exPlot 12 ''A-1'' 2 ''available'',
                             exPlot 13 ''A-3'' 1 ''reserved'']\<rparr> \<and>
   fst (updatePlotCounts (exColony 1) (snd (DELETE_plots 10 exStore))) =
     exColony 1\<lparr>totalPlots := 2, availablePlots := 0, soldPlots := 1, blockedPlots := 0\<rparr>"
proof -
  have h: "statusValid exStore"
    by (simp add: statusValid_def plotStatusEnum_def ex_defs)
  have d: "snd (DELETE_plots 10 exStore) =
     exStore\<lparr>plotColl := [exPlot 11 ''A-2'' 1 ''sold'', exPlot 12 ''A-1'' 2 ''available'',
                             exPlot 13 ''A-3'' 1 ''reserved'']\<rparr>"
    by (simp add: DELETE_plots_def Plot_findById_def plot_deleteOne_def ex_defs)
  from recount_after_create_or_delete [OF h, of "snd (DELETE_plots 10 exStore)" 0 0
      "\<lparr>b_plotNumber = ''A-9'', b_colony = 1, b_area = None, b_pricePerSqFt = None,
        b_totalPrice = None, b_status = None\<rparr>" 10 "exColony 1"]
    h d show ?thesis
    by (simp add: updatePlotCounts_def Plot_find_def colony_save_def Let_def ex_defs)
qed

section \<open>Middleware and the plot routes\<close>

lemma colonyColl_PUT_plots: "colonyColl (snd (PUT_plots i u s)) = colonyColl s"
  by (auto simp: PUT_plots_def Plot_findByIdAndUpdate_def Let_def
           split: sum.splits option.splits list.splits)

lemma colonyColl_plot_deleteOne: "colonyColl (plot_deleteOne d s) = colonyColl s"
  by (simp add: plot_deleteOne_def)

lemma colonyColl_DELETE_plots: "colonyColl (snd (DELETE_plots i s)) = colonyColl s"
  by (simp add: DELETE_plots_def colonyColl_plot_deleteOne split: option.splits)

lemma Plot_create_recounts:
  assumes "Plot_create newId user body s = Inr (d, s')"
    and "Colony_findById (b_colony body) s = Some c"
  shows "Colony_findById (b_colony body) s' =
           Some (fst (updatePlotCounts c (s\<lparr>plotColl := plotColl s @ [d]\<rparr>)))"
proof -
  let ?s1 = "s\<lparr>plotColl := plotColl s @ [d]\<rparr>"
  have d: "d = pre_save (newPlot newId user body)" and s': "s' = post_save d ?s1"
    using assms(1) by (auto simp: Plot_create_def Let_def split: list.splits)
  have col: "colony d = b_colony body" by (simp add: d pre_save_def newPlot_def)
  have f: "Colony_findById (b_colony body) ?s1 = Some c"
    using assms(2) by (simp add: Colony_findById_def)
  let ?c' = "fst (updatePlotCounts c ?s1)"
  have cid: "colony_id c = b_colony body"
    using assms(2) by (auto simp: Colony_findById_def dest: find_Some_iff [THEN iffD1])
  have "snd (updatePlotCounts c ?s1) = colony_save ?c' ?s1"
    by (simp add: updatePlotCounts_def Let_def)
  moreover have "Colony_findById (colony_id ?c') (colony_save ?c' ?s1) = Some ?c'"
    using f cid by (intro Colony_findById_colony_save [of _ _ c]) (simp add: updatePlotCounts_fields)
  ultimately show ?thesis
    using f cid col by (simp add: s' post_save_def updatePlotCounts_fields)
qed

lemma plot_remove_recounts:
  assumes "Colony_findById (colony d) s = Some c"
  shows "Colony_findById (colony d) (plot_remove d s) =
           Some (fst (updatePlotCounts c
                  (s\<lparr>plotColl := filter (\<lambda>p. plot_id p \<noteq> plot_id d) (plotColl s)\<rparr>)))"
proof -
  let ?s1 = "s\<lparr>plotColl := filter (\<lambda>p. plot_id p \<noteq> plot_id d) (plotColl s)\<rparr>"
  have f: "Colony_findById (colony d) ?s1 = Some c"
    using assms by (simp add: Colony_findById_def)
  let ?c' = "fst (updatePlotCounts c ?s1)"
  have cid: "colony_id c = colony d"
    using assms by (auto simp: Colony_findById_def dest: find_Some_iff [THEN iffD1])
  have "snd (updatePlotCounts c ?s1) = colony_save ?c' ?s1"
    by (simp add: updatePlotCounts_def Let_def)
  moreover have "Colony_findById (colony_id ?c') (colony_save ?c' ?s1) = Some ?c'"
    using f cid by (intro Colony_findById_colony_save [of _ _ c]) (simp add: updatePlotCounts_fields)
  ultimately show ?thesis
    using f cid by (simp add: plot_remove_def post_remove_def Let_def updatePlotCounts_fields)
qed

text \<open>
  C3. The recompute is registered after \<open>save\<close> and after \<open>remove\<close>. \<open>POST /plots\<close>
  saves, so the counters follow a create; \<open>PUT /plots/:id\<close> updates by query, so they
  do not follow an update. \<open>DELETE /plots/:id\<close> calls \<open>plot.deleteOne()\<close>, for which
  nothing is registered: after two creates and a successful delete the Colony still
  counts two plots, where a recompute would count one.
\<close>

theorem delete_route_skips_recount:
  "(let (r1, s1) = POST_plots 10 9 (exBody ''A-1'' 1) exEmpty;
        (r2, s2) = POST_plots 11 9 (exBody ''A-2'' 1) s1;
        (r3, s3) = DELETE_plots 10 s2
    in code r1 = 201 \<and> code r2 = 201 \<and>
       colonyColl s2 = [exColony 1\<lparr>totalPlots := 2, availablePlots := 2\<rparr>] \<and>
       code r3 = 200 \<and> success r3 \<and>
       map plot_id (plotColl s3) = [11] \<and>
       colonyColl s3 = [exColony 1\<lparr>totalPlots := 2, availablePlots := 2\<rparr>] \<and>
       fst (updatePlotCounts (exColony 1) s3) =
         exColony 1\<lparr>totalPlots := 1, availablePlots := 1\<rparr>)"
  by (simp add: run_defs exBody_def exEmpty_def ex_defs)

section \<open>The total price\<close>

lemma Plot_create_totalPrice:
  assumes "Plot_create newId user body s = Inr (d, s')"
    and "b_area body = Some a" and "b_pricePerSqFt body = Some p" and "a \<noteq> 0" and "p \<noteq> 0"
  shows "totalPrice d = Some (a * p) \<and> d \<in> set (plotColl s')"
  using assms
  by (auto simp: Plot_create_def Let_def pre_save_def truthy_def times_opt_def newPlot_def
           split: list.splits)

text \<open>
  C4. \<open>POST /plots\<close> stores \<open>totalPrice = area * pricePerSqFt\<close> whatever the caller sent
  (here 1). \<open>PUT /plots/:id\<close> with a new \<open>area\<close> and \<open>pricePerSqFt\<close> stores the two
  fields and leaves \<open>totalPrice\<close> as it was: 20000, where the product is 30000.
\<close>

theorem update_route_keeps_totalPrice:
  "(let (r1, s1) = POST_plots 10 9 (exBody ''A-1'' 1) exEmpty;
        (r2, s2) = PUT_plots 10 \<lparr>u_plotNumber = None, u_colony = None, u_area = Some 150,
                      u_pricePerSqFt = Some 200, u_totalPrice = None, u_status = None\<rparr> s1
    in code r1 = 201 \<and> map totalPrice (plotColl s1) = [Some 20000] \<and>
       code r2 = 200 \<and> success r2 \<and>
       map area (plotColl s2) = [Some 150] \<and>
       map pricePerSqFt (plotColl s2) = [Some 200] \<and>
       map totalPrice (plotColl s2) = [Some 20000] \<and>
       times_opt (Some 150) (Some 200) = Some 30000)"
  by (simp add: run_defs exBody_def exEmpty_def ex_defs)


section \<open>Colony counters and the request body\<close>




section \<open>Plot numbers\<close>

lemma find_None_iff': "(find P xs = None) = (\<forall>x \<in> set xs. \<not> P x)"
  by (induction xs) auto

text \<open>
  C6. \<open>POST /plots\<close> for an existing Colony: when a stored plot has the body's
  \<open>plotNumber\<close> and \<open>colony\<close>, the answer is the conflict (status 400) and the store is
  unchanged. When no plot of that Colony has the \<open>plotNumber\<close> (plots of other Colonies
  may have it) and the document passes the schema's validators, the answer is the success
  (status 201) and the new plot is appended to the stored plots.
\<close>

theorem plotNumber_unique_per_colony:
  "(Colony_findById (b_colony body) s = Some c \<and> p \<in> set (plotColl s) \<and>
    plotNumber p = b_plotNumber body \<and> colony p = b_colony body \<longrightarrow>
      POST_plots newId user body s =
        (failure 400 ''Plot number already exists in this colony'', s)) \<and>
   (Colony_findById (b_colony body) s = Some c \<and>
    (\<forall>p \<in> set (plotColl s). plotNumber p = b_plotNumber body \<longrightarrow> colony p \<noteq> b_colony body) \<and>
    validatePlot (newPlot newId user body) = [] \<longrightarrow>
      (\<exists>d s'. POST_plots newId user body s =
                 (sendSuccess 201 ''Plot created successfully'' (PlotData d), s') \<and>
              plot_id d = newId \<and> plotNumber d = b_plotNumber body \<and>
              colony d = b_colony body \<and> plotColl s' = plotColl s @ [d]))"
proof (intro conjI impI)
  assume a: "Colony_findById (b_colony body) s = Some c \<and> p \<in> set (plotColl s) \<and>
    plotNumber p = b_plotNumber body \<and> colony p = b_colony body"
  then have "find (\<lambda>p. plotNumber p = b_plotNumber body \<and> colony p = b_colony body) (plotColl s)
      \<noteq> None"
    by (auto simp: find_None_iff')
  then obtain e where "Plot_findOne (\<lambda>p. plotNumber p = b_plotNumber body \<and>
      colony p = b_colony body) s = Some e"
    by (auto simp: Plot_findOne_def)
  with a show "POST_plots newId user body s =
        (failure 400 ''Plot number already exists in this colony'', s)"
    by (simp add: POST_plots_def)
next
  assume a: "Colony_findById (b_colony body) s = Some c \<and>
    (\<forall>p \<in> set (plotColl s). plotNumber p = b_plotNumber body \<longrightarrow> colony p \<noteq> b_colony body) \<and>
    validatePlot (newPlot newId user body) = []"
  then have none: "Plot_findOne (\<lambda>p. plotNumber p = b_plotNumber body \<and>
      colony p = b_colony body) s = None"
    by (auto simp: Plot_findOne_def find_None_iff')
  let ?d = "pre_save (newPlot newId user body)"
  let ?s' = "post_save ?d (s\<lparr>plotColl := plotColl s @ [?d]\<rparr>)"
  have cr: "Plot_create newId user body s = Inr (?d, ?s')"
    using a by (simp add: Plot_create_def Let_def)
  have "POST_plots newId user body s =
      (sendSuccess 201 ''Plot created successfully'' (PlotData ?d), ?s')"
    using a none cr by (simp add: POST_plots_def)
  moreover have "plot_id ?d = newId \<and> plotNumber ?d = b_plotNumber body \<and>
      colony ?d = b_colony body \<and> plotColl ?s' = plotColl s @ [?d]"
    by (simp add: pre_save_def newPlot_def)
  ultimately show "\<exists>d s'. POST_plots newId user body s =
                 (sendSuccess 201 ''Plot created successfully'' (PlotData d), s') \<and>
              plot_id d = newId \<and> plotNumber d = b_plotNumber body \<and>
              colony d = b_colony body \<and> plotColl s' = plotColl s @ [d]"
    by blast
qed

theorem plotNumber_unique_per_colony_witness:
  "POST_plots 14 9 (exBody ''A-2'' 1) exStore =
     (failure 400 ''Plot number already exists in this colony'', exStore) \<and>
   fst (POST_plots 14 9 (exBody ''A-2'' 2) exStore) =
     sendSuccess 201 ''Plot created successfully''
       (PlotData (exPlot 14 ''A-2'' 2 ''available'')) \<and>
   plotColl (snd (POST_plots 14 9 (exBody ''A-2'' 2) exStore)) =
     plotColl exStore @ [exPlot 14 ''A-2'' 2 ''available'']"
proof -
  have h1: "Colony_findById (b_colony (exBody ''A-2'' 1)) exStore = Some (exColony 1) \<and>
      exPlot 11 ''A-2'' 1 ''sold'' \<in> set (plotColl exStore) \<and>
      plotNumber (exPlot 11 ''A-2'' 1 ''sold'') = b_plotNumber (exBody ''A-2'' 1) \<and>
      colony (exPlot 11 ''A-2'' 1 ''sold'') = b_colony (exBody ''A-2'' 1)"
    by (simp add: Colony_findById_def exBody_def ex_defs)
  have h2: "Colony_findById (b_colony (exBody ''A-2'' 2)) exStore = Some (exColony 2) \<and>
      (\<forall>p \<in> set (plotColl exStore).
         plotNumber p = b_plotNumber (exBody ''A-2'' 2) \<longrightarrow> colony p \<noteq> b_colony (exBody ''A-2'' 2)) \<and>
      validatePlot (newPlot 14 9 (exBody ''A-2'' 2)) = []"
    by (simp add: Colony_findById_def validatePlot_def newPlot_def plotStatusEnum_def
          exBody_def ex_defs)
  from plotNumber_unique_per_colony
         [of "exBody ''A-2'' 1" exStore "exColony 1" "exPlot 11 ''A-2'' 1 ''sold''" 14 9]
       plotNumber_unique_per_colony
         [of "exBody ''A-2'' 2" exStore "exColony 2" "exPlot 11 ''A-2'' 1 ''sold''" 14 9]
       h1 h2
  show ?thesis
    by (simp add: run_defs exBody_def ex_defs)
qed

section \<open>Validation failures\<close>

text \<open>
  C7. When the validation result is not empty, \<open>handleValidationErrors\<close> answers with
  status 400 and \<open>success: false\<close>, with one entry \<open>{field, message, value, location}\<close>
  for each entry of the validation result, in order, and does not run the rest of the
  route: the store is unchanged, for any handler and for the three plot routes.
  \<open>POST /colonies\<close>, which checks the validation result itself, answers with status
  400, \<open>success: false\<close> and all the entries, and leaves the store unchanged.
\<close>

theorem validation_failure_response:
  assumes "errors \<noteq> []"
  shows "\<exists>ds. handleValidationErrors errors now nxt s =
           (\<lparr>code = 400, success = False, res_message = ''Validation failed'',
             res_timestamp = Some now, res_body = ErrorDetails ds\<rparr>, s) \<and>
         length ds = length errors \<and>
         (\<forall>k < length errors.
            field (ds ! k) = path (errors ! k) \<and> message (ds ! k) = msg (errors ! k) \<and>
            d_value (ds ! k) = v_value (errors ! k) \<and>
            location (ds ! k) = v_location (errors ! k)) \<and>
         snd (route_POST_plots errors now newId user body s) = s \<and>
         snd (route_PUT_plots errors now i ubody s) = s \<and>
         snd (route_DELETE_plots errors now i s) = s \<and>
         POST_colonies errors newId user cbody s =
           (\<lparr>code = 400, success = False, res_message = ''Validation errors'',
             res_timestamp = None, res_body = RawErrors errors\<rparr>, s)"
  using assms
  by (simp add: handleValidationErrors_def route_POST_plots_def route_PUT_plots_def
        route_DELETE_plots_def POST_colonies_def Let_def)

theorem validation_failure_response_witness:
  "[\<lparr>path = ''area'', msg = ''Area must be a number'', v_value = JStr ''x'',
      v_location = ''body''\<rparr>,
    \<lparr>path = ''facing'', msg = ''Invalid facing direction'', v_value = JUndefined,
      v_location = ''body''\<rparr>] \<noteq> [] \<and>
   route_POST_plots
     [\<lparr>path = ''area'', msg = ''Area must be a number'', v_value = JStr ''x'',
        v_location = ''body''\<rparr>,
      \<lparr>path = ''facing'', msg = ''Invalid facing direction'', v_value = JUndefined,
        v_location = ''body''\<rparr>]
     ''2024-01-01T00:00:00.000Z'' 14 9 (exBody ''A-9'' 1) exStore =
   (\<lparr>code = 400, success = False, res_message = ''Validation failed'',
     res_timestamp = Some ''2024-01-01T00:00:00.000Z'',
     res_body = ErrorDetails
       [\<lparr>field = ''area'', message = ''Area must be a number'', d_value = JStr ''x'',
          location = ''body''\<rparr>,
        \<lparr>field = ''facing'', message = ''Invalid facing direction'', d_value = JUndefined,
          location = ''body''\<rparr>]\<rparr>, exStore)"
proof -
  have h: "[\<lparr>path = ''area'', msg = ''Area must be a number'', v_value = JStr ''x'',
      v_location = ''body''\<rparr>,
    \<lparr>path = ''facing'', msg = ''Invalid facing direction'', v_value = JUndefined,
      v_location = ''body''\<rparr>] \<noteq> []" by simp
  from validation_failure_response [OF h] h show ?thesis
    by (simp add: handleValidationErrors_def route_POST_plots_def Let_def)
qed


end
